theory Spec2Isabelle
  imports Complex_Main "HOL-Library.Char_ord" "HOL-Library.List_Lexorder"
begin

section \<open>The book store service of server.js\<close>

text \<open>
  The service keeps three module-level variables (\<open>books\<close>, \<open>currentId\<close>,
  \<open>requestCounter\<close>) and two winston loggers whose \<open>level\<close> property can be read and
  written at run time. Every Express handler is modelled as a function from the state
  before the request to the state after it and the response sent.

  Conventions of the embedding:
  \<^item> JavaScript strings are \<open>string\<close>, a list of code units.
  \<^item> JavaScript numbers are rationals together with \<open>NaN\<close> and the two infinities.
    Every binary64 value is one of them, comparisons between them are exact, and
    \<open>-0\<close> is \<open>0\<close>.
  \<^item> The built-in functions the handlers call (\<open>toLowerCase\<close>, \<open>toUpperCase\<close>,
    \<open>localeCompare\<close>, \<open>parseInt\<close> and the conversion of a string to a number) are
    parameters of the model, collected in the record \<open>runtime\<close>. A property stated
    for an arbitrary runtime holds whatever these functions compute.
  \<^item> The JSON body of \<open>POST /book\<close> is well typed: \<open>title\<close> and \<open>author\<close> are strings,
    \<open>year\<close> and \<open>price\<close> are (finite) JSON numbers, \<open>genres\<close> is an array of strings.
  \<^item> A query parameter is either missing (\<open>None\<close>, JavaScript \<open>undefined\<close>) or one
    string (\<open>Some s\<close>).
  \<^item> \<open>currentId\<close> and \<open>requestCounter\<close> are natural numbers; the loss of precision
    of \<open>++\<close> beyond \<open>2^53\<close> is not modelled.
  \<^item> The text written to the log files is not part of the model.
\<close>

subsection \<open>JavaScript numbers\<close>

datatype jsnum = NaN | NegInf | Fin rat | PosInf

text \<open>\<open>a <= b\<close> on numbers: false as soon as one side is \<open>NaN\<close>.\<close>

fun js_le :: "jsnum \<Rightarrow> jsnum \<Rightarrow> bool" where
  "js_le NaN _ = False"
| "js_le _ NaN = False"
| "js_le NegInf _ = True"
| "js_le _ PosInf = True"
| "js_le (Fin a) (Fin b) = (a \<le> b)"
| "js_le PosInf _ = False"
| "js_le (Fin a) NegInf = False"

text \<open>\<open>a >= b\<close> on numbers.\<close>

definition js_ge :: "jsnum \<Rightarrow> jsnum \<Rightarrow> bool" where
  "js_ge a b = js_le b a"

subsection \<open>The built-in functions, as parameters\<close>

text \<open>
  \<open>toLowerCase\<close> and \<open>toUpperCase\<close> are the methods of \<open>String.prototype\<close>,
  \<open>localeCompare\<close> returns a negative number, zero or a positive number,
  \<open>parseInt\<close> is the global function called with one argument, and
  \<open>StringToNumber\<close> is the conversion that \<open><=\<close> and \<open>==\<close> apply to a string
  operand when the other operand is a number.
\<close>

record runtime =
  toLowerCase :: "string \<Rightarrow> string"
  toUpperCase :: "string \<Rightarrow> string"
  localeCompare :: "string \<Rightarrow> string \<Rightarrow> int"
  parseInt :: "string \<Rightarrow> jsnum"
  StringToNumber :: "string \<Rightarrow> jsnum"

text \<open>A query parameter used as a number: \<open>undefined\<close> converts to \<open>NaN\<close>, and
  \<open>parseInt(undefined)\<close> parses the text \<open>undefined\<close>.\<close>

definition ToNumber :: "runtime \<Rightarrow> string option \<Rightarrow> jsnum" where
  "ToNumber rt p = (case p of None \<Rightarrow> NaN | Some s \<Rightarrow> StringToNumber rt s)"

definition parseInt_param :: "runtime \<Rightarrow> string option \<Rightarrow> jsnum" where
  "parseInt_param rt p = (case p of None \<Rightarrow> parseInt rt ''undefined'' | Some s \<Rightarrow> parseInt rt s)"

text \<open>\<open>if (p)\<close> on a query parameter: \<open>undefined\<close> and the empty string are falsy.\<close>

definition truthy :: "string option \<Rightarrow> bool" where
  "truthy p = (case p of None \<Rightarrow> False | Some s \<Rightarrow> s \<noteq> [])"

text \<open>\<open>s.split(",")\<close>: the pieces between the separators; the empty string gives one
  empty piece.\<close>

fun split :: "char \<Rightarrow> string \<Rightarrow> string list" where
  "split c [] = [[]]"
| "split c (x # xs) =
     (if x = c then [] # split c xs
      else (case split c xs of [] \<Rightarrow> [[x]] | w # ws \<Rightarrow> (x # w) # ws))"


fun insert_by :: "('a \<Rightarrow> 'a \<Rightarrow> int) \<Rightarrow> 'a \<Rightarrow> 'a list \<Rightarrow> 'a list" where
  "insert_by cmp x [] = [x]"
| "insert_by cmp x (y # ys) = (if cmp x y \<le> 0 then x # y # ys else y # insert_by cmp x ys)"

definition sort_by :: "('a \<Rightarrow> 'a \<Rightarrow> int) \<Rightarrow> 'a list \<Rightarrow> 'a list" where
  "sort_by cmp xs = foldr (insert_by cmp) xs []"

subsection \<open>The state of the process\<close>

text \<open>A stored book object. \<open>POST /book\<close> builds it with exactly these six properties;
  \<open>price\<close> is later overwritten by \<open>PUT /book\<close> with whatever \<open>parseInt\<close> returns.\<close>

record book =
  id_b :: nat
  title :: string
  author :: string
  year :: rat
  price :: jsnum
  genres :: "string list"

text \<open>The module-level variables, and the \<open>level\<close> property of \<open>requestLogger\<close> and
  \<open>booksLogger\<close>.\<close>

record state =
  books :: "book list"
  currentId :: nat
  requestCounter :: nat
  requestLogger_level :: string
  booksLogger_level :: string

definition init :: state where
  "init = \<lparr>books = [], currentId = 1, requestCounter = 0,
            requestLogger_level = ''info'', booksLogger_level = ''info''\<rparr>"

definition validGenres :: "string list" where
  "validGenres = [''SCI_FI'', ''NOVEL'', ''HISTORY'', ''MANGA'', ''ROMANCE'', ''PROFESSIONAL'']"

text \<open>The parameters \<open>filterBooks\<close> reads from \<open>req.query\<close>.\<close>

record query =
  q_author :: "string option"
  priceBiggerThan :: "string option"
  priceLessThan :: "string option"
  yearBiggerThan :: "string option"
  yearLessThan :: "string option"
  q_genres :: "string option"

text \<open>
  Every \<open>return res.status(...)\<close> of an error branch is one constructor. The first three
  are the 409 answers of \<open>POST /book\<close> (and \<open>InvalidPrice\<close> of \<open>PUT /book\<close>),
  \<open>NotFound\<close> is the 404 answer, \<open>InvalidGenre\<close> the caught exception of
  \<open>filterBooks\<close>, \<open>UnknownChannel\<close> and \<open>InvalidSeverity\<close> the two 400 answers of the
  log-level routes. \<open>TypeError\<close> is the uncaught exception of calling
  \<open>toLowerCase\<close> on \<open>undefined\<close>, answered with 500 by the last middleware.
\<close>

datatype error =
  DuplicateTitle | InvalidYear | InvalidPrice | NotFound | InvalidGenre
  | UnknownChannel | InvalidSeverity | TypeError

definition status :: "error \<Rightarrow> nat" where
  "status e =
     (case e of
        DuplicateTitle \<Rightarrow> 409 | InvalidYear \<Rightarrow> 409 | InvalidPrice \<Rightarrow> 409
      | NotFound \<Rightarrow> 404
      | InvalidGenre \<Rightarrow> 400 | UnknownChannel \<Rightarrow> 400 | InvalidSeverity \<Rightarrow> 400
      | TypeError \<Rightarrow> 500)"

text \<open>The bodies of the 200 answers.\<close>

datatype response =
  Err error
  | Text string
  | Result nat
  | Number jsnum
  | OneBook book
  | Books "book list"

subsection \<open>POST /book\<close>

definition create ::
  "runtime \<Rightarrow> state \<Rightarrow> string \<Rightarrow> string \<Rightarrow> rat \<Rightarrow> rat \<Rightarrow> string list
     \<Rightarrow> state \<times> response" where
  "create rt st title' author' year' price' genres' =
     (case find (\<lambda>b. toLowerCase rt (title b) = toLowerCase rt title') (books st) of
        Some existingBook \<Rightarrow> (st, Err DuplicateTitle)
      | None \<Rightarrow>
          if year' < 1940 \<or> year' > 2100 then (st, Err InvalidYear)
          else if price' \<le> 0 then (st, Err InvalidPrice)
          else
            (let newBook = \<lparr>id_b = currentId st, title = title', author = author',
                            year = year', price = Fin price', genres = genres'\<rparr>
             in (st\<lparr>currentId := currentId st + 1, books := books st @ [newBook]\<rparr>,
                 Result (id_b newBook))))"

subsection \<open>filterBooks, GET /books/total and GET /books\<close>

text \<open>
  \<open>filterBooks\<close> starts from the array \<open>books\<close> itself and replaces it by a fresh
  array each time a criterion is applied. The flag returned with the list says
  whether the result is still the store's own array (no criterion was applied),
  because \<open>GET /books\<close> sorts the result in place.
\<close>

definition apply_filter ::
  "bool \<Rightarrow> (book \<Rightarrow> bool) \<Rightarrow> bool \<times> book list \<Rightarrow> bool \<times> book list" where
  "apply_filter c P r = (if c then (False, filter P (snd r)) else r)"

definition genre_filter :: "string option \<Rightarrow> bool \<times> book list \<Rightarrow> error + bool \<times> book list" where
  "genre_filter g r =
     (if truthy g then
        (let genreList = split (CHR '','') (the g) in
         if \<not> list_all (\<lambda>genre. genre \<in> set validGenres) genreList then Inl InvalidGenre
         else Inr (False,
                   filter (\<lambda>b. list_ex (\<lambda>genre. genre \<in> set genreList) (genres b)) (snd r)))
      else Inr r)"

definition filterBooks :: "runtime \<Rightarrow> book list \<Rightarrow> query \<Rightarrow> error + bool \<times> book list" where
  "filterBooks rt bs q =
     (case genre_filter (q_genres q) (True, bs) of
        Inl e \<Rightarrow> Inl e
      | Inr r0 \<Rightarrow>
          (let r1 = apply_filter (truthy (q_author q))
                      (\<lambda>b. toLowerCase rt (author b) = toLowerCase rt (the (q_author q))) r0;
               r2 = apply_filter (truthy (priceBiggerThan q))
                      (\<lambda>b. js_ge (price b) (parseInt rt (the (priceBiggerThan q)))) r1;
               r3 = apply_filter (truthy (priceLessThan q))
                      (\<lambda>b. js_le (price b) (parseInt rt (the (priceLessThan q)))) r2;
               r4 = apply_filter (truthy (yearBiggerThan q))
                      (\<lambda>b. js_ge (Fin (year b)) (parseInt rt (the (yearBiggerThan q)))) r3;
               r5 = apply_filter (truthy (yearLessThan q))
                      (\<lambda>b. js_le (Fin (year b)) (parseInt rt (the (yearLessThan q)))) r4
           in Inr r5))"

definition books_total :: "runtime \<Rightarrow> state \<Rightarrow> query \<Rightarrow> state \<times> response" where
  "books_total rt st q =
     (case filterBooks rt (books st) q of
        Inl e \<Rightarrow> (st, Err e)
      | Inr r \<Rightarrow> (st, Result (length (snd r))))"

text \<open>The comparison function of \<open>GET /books\<close>; \<open>sort\<close> works in place, \<open>map\<close> builds
  new objects with the six properties.\<close>

definition compare_titles :: "runtime \<Rightarrow> book \<Rightarrow> book \<Rightarrow> int" where
  "compare_titles rt a b = localeCompare rt (toLowerCase rt (title a)) (toLowerCase rt (title b))"

definition view :: "book \<Rightarrow> book" where
  "view b = \<lparr>id_b = id_b b, title = title b, author = author b,
             year = year b, price = price b, genres = genres b\<rparr>"

definition books_list :: "runtime \<Rightarrow> state \<Rightarrow> query \<Rightarrow> state \<times> response" where
  "books_list rt st q =
     (case filterBooks rt (books st) q of
        Inl e \<Rightarrow> (st, Err e)
      | Inr r \<Rightarrow>
          (let sorted = sort_by (compare_titles rt) (snd r);
               st' = (if fst r then st\<lparr>books := sorted\<rparr> else st)
           in (st', Books (map view sorted))))"

subsection \<open>GET, PUT and DELETE /book\<close>

text \<open>\<open>book.id == id\<close> with \<open>id\<close> taken from the query string: the string is
  converted to a number; \<open>undefined\<close> equals no number.\<close>

definition id_eq :: "runtime \<Rightarrow> string option \<Rightarrow> book \<Rightarrow> bool" where
  "id_eq rt p b =
     (case p of None \<Rightarrow> False | Some s \<Rightarrow> StringToNumber rt s = Fin (of_nat (id_b b)))"

definition get_book :: "runtime \<Rightarrow> state \<Rightarrow> string option \<Rightarrow> state \<times> response" where
  "get_book rt st p =
     (case find (id_eq rt p) (books st) of
        None \<Rightarrow> (st, Err NotFound)
      | Some b \<Rightarrow> (st, OneBook b))"

text \<open>\<open>find\<close> returns the stored object, so the assignment to \<open>book.price\<close> changes
  the first book of the array that has the id.\<close>

fun set_price :: "runtime \<Rightarrow> string option \<Rightarrow> jsnum \<Rightarrow> book list \<Rightarrow> book list" where
  "set_price rt p v [] = []"
| "set_price rt p v (b # bs) =
     (if id_eq rt p b then b\<lparr>price := v\<rparr> # bs else b # set_price rt p v bs)"

definition update_price ::
  "runtime \<Rightarrow> state \<Rightarrow> string option \<Rightarrow> string option \<Rightarrow> state \<times> response" where
  "update_price rt st p price' =
     (case find (id_eq rt p) (books st) of
        None \<Rightarrow> (st, Err NotFound)
      | Some b \<Rightarrow>
          if js_le (ToNumber rt price') (Fin 0) then (st, Err InvalidPrice)
          else
            (let oldPrice = price b
             in (st\<lparr>books := set_price rt p (parseInt_param rt price') (books st)\<rparr>,
                 Number oldPrice)))"

text \<open>\<open>findIndex\<close> and \<open>splice(bookIndex, 1)\<close>: the first book that has the id is
  removed.\<close>

fun remove_first :: "runtime \<Rightarrow> string option \<Rightarrow> book list \<Rightarrow> book list" where
  "remove_first rt p [] = []"
| "remove_first rt p (b # bs) = (if id_eq rt p b then bs else b # remove_first rt p bs)"

definition delete_book :: "runtime \<Rightarrow> state \<Rightarrow> string option \<Rightarrow> state \<times> response" where
  "delete_book rt st p =
     (if \<not> list_ex (id_eq rt p) (books st) then (st, Err NotFound)
      else
        (let bs = remove_first rt p (books st)
         in (st\<lparr>books := bs\<rparr>, Result (length bs))))"

subsection \<open>GET and PUT /logs/level\<close>

definition get_level :: "runtime \<Rightarrow> state \<Rightarrow> string option \<Rightarrow> state \<times> response" where
  "get_level rt st loggerName =
     (if loggerName = Some ''request-logger''
        then (st, Text (toUpperCase rt (requestLogger_level st)))
      else if loggerName = Some ''books-logger''
        then (st, Text (toUpperCase rt (booksLogger_level st)))
      else (st, Err UnknownChannel))"

definition validLevels :: "string list" where
  "validLevels = [''error'', ''warn'', ''info'', ''http'', ''debug'']"

definition set_level ::
  "runtime \<Rightarrow> state \<Rightarrow> string option \<Rightarrow> string option \<Rightarrow> state \<times> response" where
  "set_level rt st loggerName loggerLevel =
     (if loggerName \<noteq> Some ''request-logger'' \<and> loggerName \<noteq> Some ''books-logger''
      then (st, Err UnknownChannel)
      else
        (case loggerLevel of
           None \<Rightarrow> (st, Err TypeError)
         | Some l \<Rightarrow>
             if toLowerCase rt l \<notin> set validLevels then (st, Err InvalidSeverity)
             else if loggerName = Some ''request-logger''
               then (st\<lparr>requestLogger_level := toLowerCase rt l\<rparr>,
                     Text (toUpperCase rt (toLowerCase rt l)))
               else (st\<lparr>booksLogger_level := toLowerCase rt l\<rparr>,
                     Text (toUpperCase rt (toLowerCase rt l)))))"

subsection \<open>Requests\<close>

datatype request =
  Health
  | PostBook string string rat rat "string list"
  | GetTotal query
  | GetBooks query
  | GetBook "string option"
  | PutBook "string option" "string option"
  | DeleteBook "string option"
  | GetLevel "string option"
  | PutLevel "string option" "string option"

text \<open>The first middleware increments \<open>requestCounter\<close>, then the route's handler
  runs.\<close>

fun route :: "runtime \<Rightarrow> state \<Rightarrow> request \<Rightarrow> state \<times> response" where
  "route rt st Health = (st, Text ''OK'')"
| "route rt st (PostBook t a y p g) = create rt st t a y p g"
| "route rt st (GetTotal q) = books_total rt st q"
| "route rt st (GetBooks q) = books_list rt st q"
| "route rt st (GetBook i) = get_book rt st i"
| "route rt st (PutBook i p) = update_price rt st i p"
| "route rt st (DeleteBook i) = delete_book rt st i"
| "route rt st (GetLevel n) = get_level rt st n"
| "route rt st (PutLevel n l) = set_level rt st n l"

definition handle :: "runtime \<Rightarrow> state \<Rightarrow> request \<Rightarrow> state \<times> response" where
  "handle rt st r = route rt (st\<lparr>requestCounter := requestCounter st + 1\<rparr>) r"

text \<open>The state after a sequence of requests.\<close>

fun run :: "runtime \<Rightarrow> state \<Rightarrow> request list \<Rightarrow> state" where
  "run rt st [] = st"
| "run rt st (r # rs) = run rt (fst (handle rt st r)) rs"

subsection \<open>A runtime for ASCII and Latin-1 text\<close>

text \<open>
  One runtime, used to evaluate the handlers on concrete requests. A character is a
  code unit below 256. \<open>lower_case\<close> is \<open>toLowerCase\<close> on such text;
  \<open>upper_case\<close> is \<open>toUpperCase\<close> except on the three code units (sharp s, micro
  sign, y with diaeresis) whose upper case is not a single code unit below 256;
  \<open>locale_compare\<close> orders by code unit, which is the order of collation between
  texts made of lower-case letters; \<open>parse_int\<close> and \<open>string_to_number\<close> compute
  exact values and do not round to binary64. The examples below only use ASCII
  letters and short decimal literals, on which these functions are the built-in ones.
\<close>

definition lower_char :: "char \<Rightarrow> char" where
  "lower_char c =
     (let n = (of_char c :: nat) in
      if (65 \<le> n \<and> n \<le> 90) \<or> (192 \<le> n \<and> n \<le> 222 \<and> n \<noteq> 215) then char_of (n + 32) else c)"

definition upper_char :: "char \<Rightarrow> char" where
  "upper_char c =
     (let n = (of_char c :: nat) in
      if (97 \<le> n \<and> n \<le> 122) \<or> (224 \<le> n \<and> n \<le> 254 \<and> n \<noteq> 247) then char_of (n - 32) else c)"

definition lower_case :: "string \<Rightarrow> string" where
  "lower_case s = map lower_char s"

definition upper_case :: "string \<Rightarrow> string" where
  "upper_case s = map upper_char s"

definition locale_compare :: "string \<Rightarrow> string \<Rightarrow> int" where
  "locale_compare a b = (if a < b then - 1 else if a = b then 0 else 1)"

text \<open>White space skipped by \<open>parseInt\<close> and trimmed by the string-to-number
  conversion: TAB, LF, VT, FF, CR, SP and the no-break space.\<close>

definition is_ws :: "char \<Rightarrow> bool" where
  "is_ws c = ((of_char c :: nat) \<in> {9, 10, 11, 12, 13, 32, 160})"

definition digit_val :: "char \<Rightarrow> nat option" where
  "digit_val c =
     (let n = (of_char c :: nat) in
      if 48 \<le> n \<and> n \<le> 57 then Some (n - 48)
      else if 97 \<le> n \<and> n \<le> 122 then Some (n - 87)
      else if 65 \<le> n \<and> n \<le> 90 then Some (n - 55)
      else None)"

definition is_digit :: "nat \<Rightarrow> char \<Rightarrow> bool" where
  "is_digit r c = (case digit_val c of None \<Rightarrow> False | Some d \<Rightarrow> d < r)"

definition digits_value :: "nat \<Rightarrow> string \<Rightarrow> nat" where
  "digits_value r ds =
     foldl (\<lambda>acc c. acc * r + (case digit_val c of None \<Rightarrow> 0 | Some d \<Rightarrow> d)) 0 ds"

definition starts_with :: "string \<Rightarrow> string \<Rightarrow> bool" where
  "starts_with p s = (take (length p) s = p)"

text \<open>
  \<open>parseInt(s)\<close> with no radix: skip leading white space, read a sign, switch to
  radix 16 after \<open>0x\<close> or \<open>0X\<close>, and take the longest prefix of digits; \<open>NaN\<close> when
  that prefix is empty. Whatever follows the digits is ignored. The value is the exact
  integer, which is the value in the program for fewer than 16 digits.
\<close>

definition parse_int :: "string \<Rightarrow> jsnum" where
  "parse_int s =
     (let s1 = dropWhile is_ws s;
          neg = starts_with ''-'' s1;
          s2 = (if starts_with ''-'' s1 \<or> starts_with ''+'' s1 then tl s1 else s1);
          hex = (starts_with ''0x'' s2 \<or> starts_with ''0X'' s2);
          r = (if hex then 16 else 10);
          s3 = (if hex then drop 2 s2 else s2);
          z = takeWhile (is_digit r) s3
      in if z = [] then NaN
         else Fin (of_int ((if neg then - 1 else 1) * int (digits_value r z))))"

text \<open>
  The conversion of a string to a number: the trimmed text must be a whole numeric
  literal; the value is exact, which is the value in the program when binary64
  represents it.
  The empty text is \<open>0\<close>; \<open>0x\<close>, \<open>0o\<close> and \<open>0b\<close> literals carry no sign; a
  decimal literal has an optional sign, digits with an optional fraction and an
  optional exponent, or is \<open>Infinity\<close>; anything else is \<open>NaN\<close>.
\<close>

definition radix_literal :: "nat \<Rightarrow> string \<Rightarrow> jsnum" where
  "radix_literal r ds =
     (if ds \<noteq> [] \<and> list_all (is_digit r) ds then Fin (of_nat (digits_value r ds)) else NaN)"

definition signed_integer :: "string \<Rightarrow> int option" where
  "signed_integer s =
     (let neg = starts_with ''-'' s;
          ds = (if starts_with ''-'' s \<or> starts_with ''+'' s then tl s else s)
      in if ds \<noteq> [] \<and> list_all (is_digit 10) ds
         then Some ((if neg then - 1 else 1) * int (digits_value 10 ds)) else None)"

definition exponent_part :: "string \<Rightarrow> int option" where
  "exponent_part s =
     (if s = [] then Some 0
      else if starts_with ''e'' s \<or> starts_with ''E'' s then signed_integer (tl s)
      else None)"

definition pow10 :: "int \<Rightarrow> rat" where
  "pow10 e = (if 0 \<le> e then 10 ^ nat e else 1 / 10 ^ nat (- e))"

definition unsigned_decimal :: "string \<Rightarrow> jsnum" where
  "unsigned_decimal s =
     (if s = ''Infinity'' then PosInf
      else
        (let ip = takeWhile (is_digit 10) s;
             r1 = dropWhile (is_digit 10) s;
             dot = starts_with ''.'' r1;
             fp = (if dot then takeWhile (is_digit 10) (tl r1) else []);
             r2 = (if dot then dropWhile (is_digit 10) (tl r1) else r1)
         in if ip = [] \<and> fp = [] then NaN
            else (case exponent_part r2 of
                    None \<Rightarrow> NaN
                  | Some e \<Rightarrow>
                      Fin ((of_nat (digits_value 10 ip)
                            + of_nat (digits_value 10 fp) / 10 ^ length fp) * pow10 e))))"

definition js_neg :: "jsnum \<Rightarrow> jsnum" where
  "js_neg x = (case x of NaN \<Rightarrow> NaN | NegInf \<Rightarrow> PosInf | Fin q \<Rightarrow> Fin (- q) | PosInf \<Rightarrow> NegInf)"

definition trim :: "string \<Rightarrow> string" where
  "trim s = rev (dropWhile is_ws (rev (dropWhile is_ws s)))"

definition string_to_number :: "string \<Rightarrow> jsnum" where
  "string_to_number s =
     (let t = trim s in
      if t = [] then Fin 0
      else if starts_with ''0x'' t \<or> starts_with ''0X'' t then radix_literal 16 (drop 2 t)
      else if starts_with ''0o'' t \<or> starts_with ''0O'' t then radix_literal 8 (drop 2 t)
      else if starts_with ''0b'' t \<or> starts_with ''0B'' t then radix_literal 2 (drop 2 t)
      else if starts_with ''-'' t then js_neg (unsigned_decimal (tl t))
      else if starts_with ''+'' t then unsigned_decimal (tl t)
      else unsigned_decimal t)"

definition latin1 :: runtime where
  "latin1 = \<lparr>toLowerCase = lower_case, toUpperCase = upper_case, localeCompare = locale_compare,
              parseInt = parse_int, StringToNumber = string_to_number\<rparr>"

subsection \<open>Vocabulary of the properties\<close>

text \<open>A request to create a book, and an answer \<open>{result: n}\<close> with a number \<open>n\<close>.\<close>

fun is_post :: "request \<Rightarrow> bool" where
  "is_post (PostBook t a y p g) = True"
| "is_post _ = False"

fun is_result :: "response \<Rightarrow> bool" where
  "is_result (Result n) = True"
| "is_result _ = False"

text \<open>How many books a sequence of requests creates when it starts in \<open>st\<close>.\<close>

fun created :: "runtime \<Rightarrow> state \<Rightarrow> request list \<Rightarrow> nat" where
  "created rt st [] = 0"
| "created rt st (r # rs) =
     (if is_post r \<and> is_result (snd (handle rt st r)) then 1 else 0)
     + created rt (fst (handle rt st r)) rs"

text \<open>The query without any parameter.\<close>

definition no_criteria :: query where
  "no_criteria = \<lparr>q_author = None, priceBiggerThan = None, priceLessThan = None,
                   yearBiggerThan = None, yearLessThan = None, q_genres = None\<rparr>"

text \<open>A \<open>genres\<close> parameter that names a tag outside the catalogue.\<close>

definition invalid_genres :: "query \<Rightarrow> bool" where
  "invalid_genres q =
     (truthy (q_genres q)
      \<and> \<not> list_all (\<lambda>genre. genre \<in> set validGenres) (split (CHR '','') (the (q_genres q))))"

text \<open>
  The criteria other than \<open>genres\<close>, as one predicate on a book: each parameter that
  is present and not empty must hold. The author is compared without regard to case,
  the bounds are inclusive and read with \<open>parseInt\<close>.
\<close>

definition other_criteria :: "runtime \<Rightarrow> query \<Rightarrow> book \<Rightarrow> bool" where
  "other_criteria rt q b =
     ((truthy (q_author q) \<longrightarrow> toLowerCase rt (author b) = toLowerCase rt (the (q_author q)))
      \<and> (truthy (priceBiggerThan q) \<longrightarrow>
            js_ge (price b) (parseInt rt (the (priceBiggerThan q))))
      \<and> (truthy (priceLessThan q) \<longrightarrow>
            js_le (price b) (parseInt rt (the (priceLessThan q))))
      \<and> (truthy (yearBiggerThan q) \<longrightarrow>
            js_ge (Fin (year b)) (parseInt rt (the (yearBiggerThan q))))
      \<and> (truthy (yearLessThan q) \<longrightarrow>
            js_le (Fin (year b)) (parseInt rt (the (yearLessThan q)))))"

text \<open>A numeric bound that is present, not empty, and in which \<open>parseInt\<close> finds no
  number.\<close>

definition malformed :: "runtime \<Rightarrow> string option \<Rightarrow> bool" where
  "malformed rt p = (case p of None \<Rightarrow> False | Some s \<Rightarrow> s \<noteq> [] \<and> parseInt rt s = NaN)"

text \<open>A genres list that is not empty and only holds tags of the catalogue, and a
  request that, if it creates a book, gives it such a list.\<close>

definition catalog_genres :: "string list \<Rightarrow> bool" where
  "catalog_genres g = (g \<noteq> [] \<and> list_all (\<lambda>genre. genre \<in> set validGenres) g)"

fun genres_ok :: "request \<Rightarrow> bool" where
  "genres_ok (PostBook t a y p g) = catalog_genres g"
| "genres_ok _ = True"

text \<open>The requests that write to the store.\<close>

fun is_write :: "request \<Rightarrow> bool" where
  "is_write (PostBook t a y p g) = True"
| "is_write (PutBook i p) = True"
| "is_write (DeleteBook i) = True"
| "is_write _ = False"

text \<open>The \<open>genres\<close> criterion as a predicate on a book: some genre of the book is
  among the requested tags.\<close>

definition genre_match :: "query \<Rightarrow> book \<Rightarrow> bool" where
  "genre_match q b =
     (truthy (q_genres q) \<longrightarrow>
        list_ex (\<lambda>genre. genre \<in> set (split (CHR '','') (the (q_genres q)))) (genres b))"

text \<open>A query none of whose six parameters is present and not empty.\<close>

definition untouched :: "query \<Rightarrow> bool" where
  "untouched q =
     (\<not> truthy (q_genres q) \<and> \<not> truthy (q_author q) \<and> \<not> truthy (priceBiggerThan q)
      \<and> \<not> truthy (priceLessThan q) \<and> \<not> truthy (yearBiggerThan q) \<and> \<not> truthy (yearLessThan q))"

text \<open>The store never holds a book whose genres are empty or outside the catalogue.\<close>

definition genres_inv :: "state \<Rightarrow> bool" where
  "genres_inv st = list_all catalog_genres (map genres (books st))"

text \<open>Three creations and the store they build, and a store of one book, used as
  concrete inputs in the examples below.\<close>

definition shelf :: "request list" where
  "shelf = [PostBook ''Neuromancer'' ''William Gibson'' 1984 30 [''SCI_FI''],
            PostBook ''emma'' ''Jane Austen'' 1950 12 [''NOVEL'', ''ROMANCE''],
            PostBook ''Akira'' ''Katsuhiro Otomo'' 1982 25 [''MANGA'']]"




definition dune :: book where
  "dune = \<lparr>id_b = 1, title = ''Dune'', author = ''Frank Herbert'', year = 1965,
            price = Fin 30, genres = [''SCI_FI'']\<rparr>"

definition dune_store :: state where
  "dune_store = \<lparr>books = [dune], currentId = 2, requestCounter = 1,
                  requestLogger_level = ''info'', booksLogger_level = ''info''\<rparr>"

section \<open>Properties\<close>

subsection \<open>Auxiliary facts about lists\<close>

lemma find_None_Bex: "(find P xs = None) = (\<not> (\<exists>x\<in>set xs. P x))"
  by (induction xs) auto

lemma find_Some_Bex: "find P xs = Some x \<Longrightarrow> \<exists>x\<in>set xs. P x"
  by (induction xs) (auto split: if_splits)

lemma set_insert_by [simp]: "set (insert_by cmp x ys) = insert x (set ys)"
  by (induction ys) auto

lemma set_sort_by [simp]: "set (sort_by cmp xs) = set xs"
  by (induction xs) (simp_all add: sort_by_def)

lemma length_insert_by [simp]: "length (insert_by cmp x ys) = Suc (length ys)"
  by (induction ys) auto

lemma length_sort_by [simp]: "length (sort_by cmp xs) = length xs"
  by (induction xs) (simp_all add: sort_by_def)





lemma view_id [simp]: "view b = b"
  by (simp add: view_def)

lemma map_view [simp]: "map view xs = xs"
  by (induction xs) simp_all

subsection \<open>Creation\<close>

text \<open>
  Claim C1. \<open>POST /book\<close> answers \<open>DuplicateTitle\<close> when a stored book has the same
  title once both are put in lower case by \<open>toLowerCase\<close>; otherwise \<open>InvalidYear\<close>
  when the year is outside the closed interval from 1940 to 2100; otherwise
  \<open>InvalidPrice\<close> when the price is at most 0; otherwise it appends the new book and
  returns the identifier just allocated. The first violated check decides the answer,
  and a refused request leaves the state as it was. This holds for every runtime.
\<close>

theorem create_checks_in_order:
  "create rt st t a y p g =
     (if \<exists>b\<in>set (books st). toLowerCase rt (title b) = toLowerCase rt t
        then (st, Err DuplicateTitle)
      else if y \<notin> {1940..2100} then (st, Err InvalidYear)
      else if p \<le> 0 then (st, Err InvalidPrice)
      else (st\<lparr>currentId := currentId st + 1,
               books := books st @ [\<lparr>id_b = currentId st, title = t, author = a, year = y,
                                     price = Fin p, genres = g\<rparr>]\<rparr>,
            Result (currentId st)))"
proof (cases "find (\<lambda>b. toLowerCase rt (title b) = toLowerCase rt t) (books st)")
  case None
  then have "\<not> (\<exists>b\<in>set (books st). toLowerCase rt (title b) = toLowerCase rt t)"
    by (simp add: find_None_Bex)
  with None show ?thesis
    by (auto simp: create_def Let_def)
next
  case (Some b)
  then have "\<exists>b\<in>set (books st). toLowerCase rt (title b) = toLowerCase rt t"
    by (rule find_Some_Bex)
  with Some show ?thesis
    by (simp add: create_def)
qed

text \<open>On a store that holds Dune: the title DUNE is a duplicate whatever the year and
  the price; a new title is refused for the years 1939 and 2101 before the price is
  looked at, then for the price 0, and accepted for the years 1940 and 2100.\<close>

theorem create_checks_in_order_witness:
  "create latin1 dune_store ''DUNE'' ''Someone'' 1939 0 [''SCI_FI''] = (dune_store, Err DuplicateTitle)
   \<and> create latin1 dune_store ''Emma'' ''Jane Austen'' 1939 0 [''NOVEL''] = (dune_store, Err InvalidYear)
   \<and> create latin1 dune_store ''Emma'' ''Jane Austen'' 2101 12 [''NOVEL''] = (dune_store, Err InvalidYear)
   \<and> create latin1 dune_store ''Emma'' ''Jane Austen'' 1940 0 [''NOVEL''] = (dune_store, Err InvalidPrice)
   \<and> create latin1 dune_store ''Emma'' ''Jane Austen'' 1940 12 [''NOVEL'']
       = (dune_store\<lparr>currentId := 3,
                     books := [dune, \<lparr>id_b = 2, title = ''Emma'', author = ''Jane Austen'',
                                      year = 1940, price = Fin 12, genres = [''NOVEL'']\<rparr>]\<rparr>,
          Result 2)
   \<and> create latin1 dune_store ''Emma'' ''Jane Austen'' 2100 12 [''NOVEL'']
       = (dune_store\<lparr>currentId := 3,
                     books := [dune, \<lparr>id_b = 2, title = ''Emma'', author = ''Jane Austen'',
                                      year = 2100, price = Fin 12, genres = [''NOVEL'']\<rparr>]\<rparr>,
          Result 2)"
proof -
  have same: "toLowerCase latin1 (title dune) = toLowerCase latin1 ''DUNE''"
    by code_simp
  have other: "toLowerCase latin1 (title dune) \<noteq> toLowerCase latin1 ''Emma''"
    by code_simp
  have bs: "books dune_store = [dune]" and cid: "currentId dune_store = 2"
    by (simp_all add: dune_store_def)
  have w1: "create latin1 dune_store ''DUNE'' ''Someone'' 1939 0 [''SCI_FI'']
              = (dune_store, Err DuplicateTitle)"
    using create_checks_in_order [of latin1 dune_store "''DUNE''" "''Someone''" 1939 0 "[''SCI_FI'']"]
    by (simp add: bs same)
  have w2: "create latin1 dune_store ''Emma'' ''Jane Austen'' 1939 0 [''NOVEL'']
              = (dune_store, Err InvalidYear)"
    using create_checks_in_order [of latin1 dune_store "''Emma''" "''Jane Austen''" 1939 0 "[''NOVEL'']"]
    by (simp add: bs other)
  have w3: "create latin1 dune_store ''Emma'' ''Jane Austen'' 2101 12 [''NOVEL'']
              = (dune_store, Err InvalidYear)"
    using create_checks_in_order [of latin1 dune_store "''Emma''" "''Jane Austen''" 2101 12 "[''NOVEL'']"]
    by (simp add: bs other)
  have w4: "create latin1 dune_store ''Emma'' ''Jane Austen'' 1940 0 [''NOVEL'']
              = (dune_store, Err InvalidPrice)"
    using create_checks_in_order [of latin1 dune_store "''Emma''" "''Jane Austen''" 1940 0 "[''NOVEL'']"]
    by (simp add: bs other)
  have w5: "create latin1 dune_store ''Emma'' ''Jane Austen'' 1940 12 [''NOVEL'']
       = (dune_store\<lparr>currentId := 3,
                     books := [dune, \<lparr>id_b = 2, title = ''Emma'', author = ''Jane Austen'',
                                      year = 1940, price = Fin 12, genres = [''NOVEL'']\<rparr>]\<rparr>,
          Result 2)"
    using create_checks_in_order [of latin1 dune_store "''Emma''" "''Jane Austen''" 1940 12 "[''NOVEL'']"]
    by (simp add: bs cid other)
  have w6: "create latin1 dune_store ''Emma'' ''Jane Austen'' 2100 12 [''NOVEL'']
       = (dune_store\<lparr>currentId := 3,
                     books := [dune, \<lparr>id_b = 2, title = ''Emma'', author = ''Jane Austen'',
                                      year = 2100, price = Fin 12, genres = [''NOVEL'']\<rparr>]\<rparr>,
          Result 2)"
    using create_checks_in_order [of latin1 dune_store "''Emma''" "''Jane Austen''" 2100 12 "[''NOVEL'']"]
    by (simp add: bs cid other)
  show ?thesis
    by (rule conjI [OF w1 conjI [OF w2 conjI [OF w3 conjI [OF w4 conjI [OF w5 w6]]]]])
qed

subsection \<open>Refused requests\<close>

lemma handle_error_frame:
  "handle rt st r = (st', Err e) \<Longrightarrow> books st' = books st \<and> currentId st' = currentId st"
  by (cases r)
     (auto simp: handle_def create_def books_total_def books_list_def get_book_def
        update_price_def delete_book_def get_level_def set_level_def Let_def
        split: option.splits sum.splits if_splits)

text \<open>
  Claim C7. When \<open>POST /book\<close>, \<open>PUT /book\<close> or \<open>DELETE /book\<close> is answered with an
  error, the array of books and \<open>currentId\<close> are what they were before the request.
\<close>

theorem failed_write_changes_nothing:
  assumes "is_write r" and "handle rt st r = (st', Err e)"
  shows "books st' = books st \<and> currentId st' = currentId st"
  using assms(2) by (rule handle_error_frame)

theorem failed_write_changes_nothing_witness:
  "is_write (PostBook ''DUNE'' ''Someone'' 1965 30 [''SCI_FI''])
   \<and> handle latin1 (run latin1 init [PostBook ''Dune'' ''Frank Herbert'' 1965 30 [''SCI_FI'']])
            (PostBook ''DUNE'' ''Someone'' 1965 30 [''SCI_FI''])
       = (run latin1 init [PostBook ''Dune'' ''Frank Herbert'' 1965 30 [''SCI_FI'']]
            \<lparr>requestCounter := 2\<rparr>, Err DuplicateTitle)
   \<and> books (run latin1 init [PostBook ''Dune'' ''Frank Herbert'' 1965 30 [''SCI_FI'']]
               \<lparr>requestCounter := 2\<rparr>)
       = books (run latin1 init [PostBook ''Dune'' ''Frank Herbert'' 1965 30 [''SCI_FI'']])
   \<and> currentId (run latin1 init [PostBook ''Dune'' ''Frank Herbert'' 1965 30 [''SCI_FI'']]
                   \<lparr>requestCounter := 2\<rparr>)
       = currentId (run latin1 init [PostBook ''Dune'' ''Frank Herbert'' 1965 30 [''SCI_FI'']])"
proof -
  have w: "is_write (PostBook ''DUNE'' ''Someone'' 1965 30 [''SCI_FI''])"
    by simp
  have h: "handle latin1 (run latin1 init [PostBook ''Dune'' ''Frank Herbert'' 1965 30 [''SCI_FI'']])
            (PostBook ''DUNE'' ''Someone'' 1965 30 [''SCI_FI''])
       = (run latin1 init [PostBook ''Dune'' ''Frank Herbert'' 1965 30 [''SCI_FI'']]
            \<lparr>requestCounter := 2\<rparr>, Err DuplicateTitle)"
    by code_simp
  from failed_write_changes_nothing [OF w h] w h show ?thesis
    by blast
qed

subsection \<open>Identifiers\<close>

lemma handle_currentId:
  "currentId (fst (handle rt st r)) =
     currentId st + (if is_post r \<and> is_result (snd (handle rt st r)) then 1 else 0)"
  by (cases r)
     (auto simp: handle_def create_def books_total_def books_list_def get_book_def
        update_price_def delete_book_def get_level_def set_level_def Let_def
        split: option.splits sum.splits if_splits)

lemma run_currentId: "currentId (run rt st rs) = currentId st + created rt st rs"
proof (induction rs arbitrary: st)
  case Nil
  show ?case by simp
next
  case (Cons r rs)
  show ?case
    using Cons.IH [of "fst (handle rt st r)"] handle_currentId [of rt st r] by simp
qed

lemma post_result:
  "snd (handle rt st (PostBook t a y p g)) = Result n \<Longrightarrow>
     n = currentId st \<and> currentId (fst (handle rt st (PostBook t a y p g))) = n + 1"
  by (auto simp: handle_def create_def Let_def split: option.splits if_splits)

text \<open>
  Claim C5. If a \<open>POST /book\<close> returns the identifier \<open>n\<close>, then after any further
  requests (deletions, price updates, queries, refused or accepted creations) a
  \<open>POST /book\<close> that succeeds returns \<open>n + 1\<close> plus the number of books created in
  between. So identifiers grow strictly, the next creation after \<open>n\<close> gets \<open>n + 1\<close>,
  and no deletion gives an identifier back.
\<close>

theorem ids_increase_across_deletes:
  assumes "snd (handle rt st (PostBook t a y p g)) = Result n"
    and "snd (handle rt (run rt (fst (handle rt st (PostBook t a y p g))) rs)
               (PostBook t' a' y' p' g')) = Result m"
  shows "m = n + 1 + created rt (fst (handle rt st (PostBook t a y p g))) rs"
proof -
  let ?s1 = "fst (handle rt st (PostBook t a y p g))"
  from assms(1) have "currentId ?s1 = n + 1"
    using post_result by blast
  moreover from assms(2) have "m = currentId (run rt ?s1 rs)"
    using post_result by blast
  ultimately show ?thesis
    by (simp add: run_currentId)
qed

theorem ids_increase_across_deletes_witness:
  "snd (handle latin1 init (PostBook ''Dune'' ''Frank Herbert'' 1965 30 [''SCI_FI''])) = Result 1
   \<and> snd (handle latin1
            (run latin1 (fst (handle latin1 init (PostBook ''Dune'' ''Frank Herbert'' 1965 30 [''SCI_FI''])))
                [DeleteBook (Some ''1'')])
            (PostBook ''Emma'' ''Jane Austen'' 1950 12 [''NOVEL''])) = Result 2
   \<and> (2::nat) = 1 + 1 + created latin1
                   (fst (handle latin1 init (PostBook ''Dune'' ''Frank Herbert'' 1965 30 [''SCI_FI''])))
                   [DeleteBook (Some ''1'')]"
proof -
  have h1: "snd (handle latin1 init (PostBook ''Dune'' ''Frank Herbert'' 1965 30 [''SCI_FI'']))
              = Result 1"
    by code_simp
  have h2: "snd (handle latin1
            (run latin1 (fst (handle latin1 init (PostBook ''Dune'' ''Frank Herbert'' 1965 30 [''SCI_FI''])))
                [DeleteBook (Some ''1'')])
            (PostBook ''Emma'' ''Jane Austen'' 1950 12 [''NOVEL''])) = Result 2"
    by code_simp
  from ids_increase_across_deletes [OF h1 h2] h1 h2 show ?thesis
    by simp
qed

subsection \<open>Queries\<close>

lemma apply_filter_eq:
  "apply_filter c P r = (fst r \<and> \<not> c, filter (\<lambda>b. c \<longrightarrow> P b) (snd r))"
  by (cases r) (simp add: apply_filter_def)

text \<open>\<open>filterBooks\<close> as one filter: the exception for an unknown tag, otherwise the
  books that satisfy every criterion, and the store's own array exactly when no
  criterion was applied.\<close>

lemma filterBooks_eq:
  "filterBooks rt bs q =
     (if invalid_genres q then Inl InvalidGenre
      else Inr (untouched q, filter (\<lambda>b. genre_match q b \<and> other_criteria rt q b) bs))"
proof (cases "truthy (q_genres q)")
  case True
  then show ?thesis
    by (auto simp: filterBooks_def genre_filter_def invalid_genres_def apply_filter_eq Let_def
          genre_match_def other_criteria_def untouched_def intro!: filter_cong)
next
  case False
  then show ?thesis
    by (auto simp: filterBooks_def genre_filter_def invalid_genres_def apply_filter_eq Let_def
          genre_match_def other_criteria_def untouched_def intro!: filter_cong)
qed

text \<open>\<open>GET /books/total\<close> never writes; \<open>GET /books\<close> keeps the state when at least one
  criterion is applied, and otherwise leaves the store sorted by title.\<close>

lemma books_total_frame: "fst (books_total rt st q) = st"
  by (simp add: books_total_def split: sum.splits)

lemma books_list_frame: "\<not> untouched q \<Longrightarrow> fst (books_list rt st q) = st"
  by (simp add: books_list_def filterBooks_eq Let_def)

lemma books_list_sorts_store:
  "untouched q \<Longrightarrow> books (fst (books_list rt st q)) = sort_by (compare_titles rt) (books st)"
  by (simp add: books_list_def filterBooks_eq Let_def untouched_def invalid_genres_def
        genre_match_def other_criteria_def)

text \<open>
  Claim C10. For criteria that are accepted, the number returned by
  \<open>GET /books/total\<close> is the length of the list returned by \<open>GET /books\<close> for the
  same store and criteria.
\<close>

theorem count_is_length_of_list:
  "(snd (books_total rt st q) = Result n) =
     (\<exists>xs. snd (books_list rt st q) = Books xs \<and> length xs = n)"
  by (auto simp: books_total_def books_list_def Let_def split: sum.splits)

theorem count_is_length_of_list_witness:
  "snd (books_total latin1 (run latin1 init shelf) (no_criteria\<lparr>priceBiggerThan := Some ''25''\<rparr>))
     = Result 2
   \<and> (\<exists>xs. snd (books_list latin1 (run latin1 init shelf)
                  (no_criteria\<lparr>priceBiggerThan := Some ''25''\<rparr>))
              = Books xs \<and> length xs = 2)"
proof -
  have h: "snd (books_total latin1 (run latin1 init shelf)
                  (no_criteria\<lparr>priceBiggerThan := Some ''25''\<rparr>))
             = Result 2"
    by code_simp
  from h count_is_length_of_list [THEN iffD1, OF h] show ?thesis
    by blast
qed




text \<open>
  Claim C4 says that no query changes the store. \<open>GET /books\<close> without any criterion
  sorts the array that \<open>filterBooks\<close> returned, which is the store's own array: three
  books inserted as Neuromancer, emma, Akira are stored as Akira, emma, Neuromancer
  after the request, while \<open>GET /books/total\<close> keeps the insertion order.
\<close>

theorem list_without_criteria_reorders_store:
  "map title (books (run latin1 init shelf)) = [''Neuromancer'', ''emma'', ''Akira'']
   \<and> map title (books (fst (handle latin1 (run latin1 init shelf) (GetBooks no_criteria))))
       = [''Akira'', ''emma'', ''Neuromancer'']
   \<and> map title (books (fst (handle latin1 (run latin1 init shelf) (GetTotal no_criteria))))
       = [''Neuromancer'', ''emma'', ''Akira'']"
  by code_simp

subsection \<open>Numeric bounds that are not numbers\<close>

lemma js_le_NaN [simp]: "js_le x NaN = False"
  by (cases x) simp_all

lemma js_ge_NaN [simp]: "js_ge NaN x = False"
  by (simp add: js_ge_def)

lemma malformed_D: "malformed rt p \<Longrightarrow> truthy p \<and> parseInt rt (the p) = NaN"
  by (cases p) (simp_all add: malformed_def truthy_def)

lemma malformed_no_match:
  assumes "malformed rt (priceBiggerThan q) \<or> malformed rt (priceLessThan q)
           \<or> malformed rt (yearBiggerThan q) \<or> malformed rt (yearLessThan q)"
  shows "\<not> other_criteria rt q b"
  using assms by (auto simp: other_criteria_def js_ge_def dest!: malformed_D)

text \<open>
  Claim C3 says that a bound that is not a number is treated as absent. It is not: on
  a store of one book priced 30, \<open>price-bigger-than=abc\<close> gives the count 0 and the
  empty list, where the query without the bound gives 1 and the book.
\<close>

theorem malformed_bound_counterexample:
  "snd (books_total latin1 (run latin1 init [PostBook ''Dune'' ''Frank Herbert'' 1965 30 [''SCI_FI'']])
         (no_criteria\<lparr>priceBiggerThan := Some ''abc''\<rparr>)) = Result 0
   \<and> snd (books_total latin1 (run latin1 init [PostBook ''Dune'' ''Frank Herbert'' 1965 30 [''SCI_FI'']])
         no_criteria) = Result 1
   \<and> snd (books_list latin1 (run latin1 init [PostBook ''Dune'' ''Frank Herbert'' 1965 30 [''SCI_FI'']])
         (no_criteria\<lparr>priceBiggerThan := Some ''abc''\<rparr>)) = Books []
   \<and> snd (books_list latin1 (run latin1 init [PostBook ''Dune'' ''Frank Herbert'' 1965 30 [''SCI_FI'']])
         no_criteria)
       = Books [\<lparr>id_b = 1, title = ''Dune'', author = ''Frank Herbert'', year = 1965,
                 price = Fin 30, genres = [''SCI_FI'']\<rparr>]"
  by code_simp

text \<open>
  Claim C3, amended. When one of the four bounds is present, not empty, and
  \<open>parseInt\<close> returns \<open>NaN\<close> for it, every comparison with it is false: the count is
  0 and the list is empty, the store is unchanged, and the bound raises no error (the
  only error is \<open>InvalidGenre\<close>, raised as it is without the bound). This holds
  whatever \<open>parseInt\<close> computes on other texts.
\<close>

theorem malformed_bound_matches_nothing:
  assumes "malformed rt (priceBiggerThan q) \<or> malformed rt (priceLessThan q)
           \<or> malformed rt (yearBiggerThan q) \<or> malformed rt (yearLessThan q)"
  shows "books_total rt st q = (st, if invalid_genres q then Err InvalidGenre else Result 0)
       \<and> books_list rt st q = (st, if invalid_genres q then Err InvalidGenre else Books [])"
proof -
  have t: "\<not> untouched q"
    using assms by (auto simp: untouched_def dest!: malformed_D)
  have "filter (\<lambda>b. genre_match q b \<and> other_criteria rt q b) (books st) = []"
    using malformed_no_match [OF assms] by simp
  then have "filterBooks rt (books st) q =
               (if invalid_genres q then Inl InvalidGenre else Inr (False, []))"
    using t by (simp add: filterBooks_eq)
  then show ?thesis
    by (simp add: books_total_def books_list_def sort_by_def)
qed

theorem malformed_bound_matches_nothing_witness:
  "malformed latin1 (priceBiggerThan (no_criteria\<lparr>priceBiggerThan := Some ''abc''\<rparr>))
   \<and> books_total latin1 (run latin1 init shelf) (no_criteria\<lparr>priceBiggerThan := Some ''abc''\<rparr>)
       = (run latin1 init shelf, Result 0)
   \<and> books_list latin1 (run latin1 init shelf) (no_criteria\<lparr>priceBiggerThan := Some ''abc''\<rparr>)
       = (run latin1 init shelf, Books [])"
proof -
  have m: "malformed latin1 (priceBiggerThan (no_criteria\<lparr>priceBiggerThan := Some ''abc''\<rparr>))"
    by code_simp
  have g: "\<not> invalid_genres (no_criteria\<lparr>priceBiggerThan := Some ''abc''\<rparr>)"
    by code_simp
  from malformed_bound_matches_nothing [OF disjI1, OF m] m g show ?thesis
    by simp
qed

subsection \<open>Prices after an update\<close>

text \<open>
  Claim C2 says that every stored price is positive at all times. \<open>PUT /book\<close> tests
  the query string with \<open>price <= 0\<close> but stores \<open>parseInt(price)\<close>: the request
  \<open>id=1&price=0.5\<close> is accepted (0.5 is not at most 0), returns the old price 30 and
  leaves the book with price 0; \<open>price=abc\<close> leaves it with \<open>NaN\<close>.
\<close>

theorem update_price_stores_zero:
  "handle latin1 (run latin1 init [PostBook ''Dune'' ''Frank Herbert'' 1965 30 [''SCI_FI'']])
          (PutBook (Some ''1'') (Some ''0.5''))
     = (\<lparr>books = [\<lparr>id_b = 1, title = ''Dune'', author = ''Frank Herbert'', year = 1965,
                    price = Fin 0, genres = [''SCI_FI'']\<rparr>],
         currentId = 2, requestCounter = 2,
         requestLogger_level = ''info'', booksLogger_level = ''info''\<rparr>,
        Number (Fin 30))
   \<and> map price (books (run latin1 init [PostBook ''Dune'' ''Frank Herbert'' 1965 30 [''SCI_FI''],
                                        PutBook (Some ''1'') (Some ''abc'')])) = [NaN]"
  by code_simp

subsection \<open>Genres of stored books\<close>

lemma genres_set_price: "map genres (set_price rt p v bs) = map genres bs"
  by (induction bs) auto

lemma set_remove_first: "set (remove_first rt p bs) \<subseteq> set bs"
  by (induction bs) auto

lemma genres_inv_handle:
  assumes "genres_ok r" and "genres_inv st"
  shows "genres_inv (fst (handle rt st r))"
proof (cases r)
  case (PostBook t a y p g)
  with assms show ?thesis
    by (auto simp: handle_def genres_inv_def create_def Let_def split: option.splits)
next
  case (GetBooks q)
  with assms show ?thesis
    by (auto simp: handle_def genres_inv_def books_list_def Let_def list_all_iff filterBooks_eq
          split: if_splits)
next
  case (PutBook i p)
  with assms show ?thesis
    by (auto simp: handle_def genres_inv_def update_price_def Let_def genres_set_price
          split: option.splits)
next
  case (DeleteBook i)
  with assms set_remove_first [of rt i "books st"] show ?thesis
    by (auto simp: handle_def genres_inv_def delete_book_def Let_def list_all_iff)
qed (use assms in \<open>auto simp: handle_def genres_inv_def books_total_def get_book_def
        get_level_def set_level_def split: option.splits sum.splits\<close>)

lemma genres_inv_run:
  "list_all genres_ok rs \<Longrightarrow> genres_inv st \<Longrightarrow> genres_inv (run rt st rs)"
  by (induction rs arbitrary: st) (auto intro: genres_inv_handle)

lemma create_ignores_genres:
  "snd (create rt st t a y p g) = snd (create rt st t a y p g')"
  by (simp add: create_def Let_def split: option.splits)

lemma create_appends:
  "is_result (snd (create rt st t a y p g)) \<Longrightarrow>
     books (fst (create rt st t a y p g))
       = books st @ [\<lparr>id_b = currentId st, title = t, author = a, year = y,
                       price = Fin p, genres = g\<rparr>]"
  by (auto simp: create_def Let_def split: option.splits if_splits)

text \<open>
  Claim C9 says that \<open>POST /book\<close> only admits books whose genres are a non-empty set
  of catalogue tags. The handler stores the \<open>genres\<close> array of the body as it is: a
  book with no genre and a book tagged \<open>COMEDY\<close> are both created.
\<close>

theorem create_genres_counterexample:
  "map genres (books (run latin1 init [PostBook ''Untagged'' ''Nobody'' 2000 10 [],
                                       PostBook ''Mistagged'' ''Nobody'' 2000 10 [''COMEDY'']]))
     = [[], [''COMEDY'']]"
  by code_simp

text \<open>
  Claim C9, amended. \<open>POST /book\<close> does not check \<open>genres\<close>: its answer is the same
  whatever list is supplied, and when it creates a book the book appended to the store
  carries exactly the supplied list. Starting from the empty store, if every creation
  request carries a non-empty list of catalogue tags, then every stored book has a
  non-empty genres list whose members belong to the catalogue.
\<close>

theorem genres_kept_as_supplied:
  "snd (create rt st t a y p g) = snd (create rt st t a y p g')
   \<and> (is_result (snd (create rt st t a y p g)) \<longrightarrow>
        books (fst (create rt st t a y p g))
          = books st @ [\<lparr>id_b = currentId st, title = t, author = a, year = y,
                          price = Fin p, genres = g\<rparr>])
   \<and> (list_all genres_ok rs \<longrightarrow>
        (\<forall>b\<in>set (books (run rt init rs)).
           genres b \<noteq> []
           \<and> set (genres b)
               \<subseteq> {''SCI_FI'', ''NOVEL'', ''HISTORY'', ''MANGA'', ''ROMANCE'', ''PROFESSIONAL''}))"
proof -
  have inv: "\<forall>b\<in>set (books (run rt init rs)).
           genres b \<noteq> []
           \<and> set (genres b)
               \<subseteq> {''SCI_FI'', ''NOVEL'', ''HISTORY'', ''MANGA'', ''ROMANCE'', ''PROFESSIONAL''}"
    if ok: "list_all genres_ok rs"
  proof -
    have "genres_inv init"
      by (simp add: genres_inv_def init_def)
    with ok have "genres_inv (run rt init rs)"
      by (rule genres_inv_run)
    then have "\<forall>b\<in>set (books (run rt init rs)).
                 genres b \<noteq> [] \<and> set (genres b) \<subseteq> set validGenres"
      by (auto simp: genres_inv_def catalog_genres_def list_all_iff)
    moreover have "set validGenres
        = {''SCI_FI'', ''NOVEL'', ''HISTORY'', ''MANGA'', ''ROMANCE'', ''PROFESSIONAL''}"
      unfolding validGenres_def by (simp only: list.set)
    ultimately show ?thesis
      by (simp only:)
  qed
  show ?thesis
    by (intro conjI impI) (rule create_ignores_genres, erule create_appends, erule inv)
qed

theorem genres_kept_as_supplied_witness:
  "snd (create latin1 dune_store ''Emma'' ''Jane Austen'' 1950 12 [''NOVEL''])
     = snd (create latin1 dune_store ''Emma'' ''Jane Austen'' 1950 12 [''COMEDY''])
   \<and> is_result (snd (create latin1 dune_store ''Emma'' ''Jane Austen'' 1950 12 [''COMEDY'']))
   \<and> books (fst (create latin1 dune_store ''Emma'' ''Jane Austen'' 1950 12 [''COMEDY'']))
       = books dune_store @ [\<lparr>id_b = currentId dune_store, title = ''Emma'',
                               author = ''Jane Austen'', year = 1950, price = Fin 12,
                               genres = [''COMEDY'']\<rparr>]
   \<and> list_all genres_ok shelf
   \<and> map genres (books (run latin1 init shelf)) = [[''SCI_FI''], [''NOVEL'', ''ROMANCE''], [''MANGA'']]
   \<and> genres (hd (books (run latin1 init shelf))) \<noteq> []
   \<and> set (genres (hd (books (run latin1 init shelf))))
       \<subseteq> {''SCI_FI'', ''NOVEL'', ''HISTORY'', ''MANGA'', ''ROMANCE'', ''PROFESSIONAL''}"
proof -
  note t1 = genres_kept_as_supplied [of latin1 dune_store "''Emma''" "''Jane Austen''" 1950 12
      "[''NOVEL'']" "[''COMEDY'']" shelf]
  note t2 = genres_kept_as_supplied [of latin1 dune_store "''Emma''" "''Jane Austen''" 1950 12
      "[''COMEDY'']" "[''COMEDY'']" shelf]
  have r: "is_result (snd (create latin1 dune_store ''Emma'' ''Jane Austen'' 1950 12 [''COMEDY'']))"
    by code_simp
  have h: "list_all genres_ok shelf"
    by code_simp
  have e: "map genres (books (run latin1 init shelf))
             = [[''SCI_FI''], [''NOVEL'', ''ROMANCE''], [''MANGA'']]"
    by code_simp
  from e have "books (run latin1 init shelf) \<noteq> []"
    by auto
  then have m: "hd (books (run latin1 init shelf)) \<in> set (books (run latin1 init shelf))"
    by simp
  note a = conjunct1 [OF t1]
  note b = mp [OF conjunct1 [OF conjunct2 [OF t2]] r]
  note f = bspec [OF mp [OF conjunct2 [OF conjunct2 [OF t1]] h] m]
  show ?thesis
    by (rule conjI [OF a conjI [OF r conjI [OF b conjI [OF h conjI [OF e f]]]]])
qed

subsection \<open>Log levels\<close>

text \<open>
  Claim C8. \<open>PUT /logs/level\<close> answers \<open>UnknownChannel\<close> unless the logger name is
  \<open>request-logger\<close> or \<open>books-logger\<close>, then \<open>InvalidSeverity\<close> unless the lower-cased
  level is one of error, warn, info, http, debug; otherwise it stores the lower-cased
  level in that logger only, and a \<open>GET /logs/level\<close> on the same logger right after
  returns the same upper-cased level. \<open>GET /logs/level\<close> answers \<open>UnknownChannel\<close> for
  any other name and never changes the state.
\<close>

theorem level_set_then_get:
  "(n \<noteq> Some ''request-logger'' \<and> n \<noteq> Some ''books-logger'' \<longrightarrow>
      set_level rt st n (Some l) = (st, Err UnknownChannel)
      \<and> get_level rt st n = (st, Err UnknownChannel))
   \<and> ((n = Some ''request-logger'' \<or> n = Some ''books-logger'')
        \<and> toLowerCase rt l \<notin> {''error'', ''warn'', ''info'', ''http'', ''debug''} \<longrightarrow>
      set_level rt st n (Some l) = (st, Err InvalidSeverity))
   \<and> ((n = Some ''request-logger'' \<or> n = Some ''books-logger'')
        \<and> toLowerCase rt l \<in> {''error'', ''warn'', ''info'', ''http'', ''debug''} \<longrightarrow>
      set_level rt st n (Some l)
        = (if n = Some ''request-logger'' then st\<lparr>requestLogger_level := toLowerCase rt l\<rparr>
           else st\<lparr>booksLogger_level := toLowerCase rt l\<rparr>,
           Text (toUpperCase rt (toLowerCase rt l)))
      \<and> snd (get_level rt (fst (set_level rt st n (Some l))) n)
          = Text (toUpperCase rt (toLowerCase rt l)))
   \<and> fst (get_level rt st n) = st"
  by (auto simp: set_level_def get_level_def validLevels_def)

theorem level_set_then_get_witness:
  "snd (set_level latin1 init (Some ''books-logger'') (Some ''DEBUG'')) = Text ''DEBUG''
   \<and> snd (get_level latin1 (fst (set_level latin1 init (Some ''books-logger'') (Some ''DEBUG'')))
            (Some ''books-logger'')) = Text ''DEBUG''
   \<and> set_level latin1 init (Some ''books-logger'') (Some ''verbose'') = (init, Err InvalidSeverity)
   \<and> set_level latin1 init (Some ''audit-logger'') (Some ''debug'') = (init, Err UnknownChannel)"
proof -
  have a: "toLowerCase latin1 ''DEBUG'' = ''debug''"
    by code_simp
  have b: "toUpperCase latin1 ''debug'' = ''DEBUG''"
    by code_simp
  have c: "toLowerCase latin1 ''verbose'' = ''verbose''"
    by code_simp
  have s1: "snd (set_level latin1 init (Some ''books-logger'') (Some ''DEBUG'')) = Text ''DEBUG''"
    using level_set_then_get [of "Some ''books-logger''" latin1 init "''DEBUG''"]
    by (simp add: a b)
  have s2: "snd (get_level latin1 (fst (set_level latin1 init (Some ''books-logger'') (Some ''DEBUG'')))
                  (Some ''books-logger'')) = Text ''DEBUG''"
    using level_set_then_get [of "Some ''books-logger''" latin1 init "''DEBUG''"]
    by (auto simp: a b)
  have s3: "set_level latin1 init (Some ''books-logger'') (Some ''verbose'')
              = (init, Err InvalidSeverity)"
    using level_set_then_get [of "Some ''books-logger''" latin1 init "''verbose''"]
    by (simp add: c)
  have s4: "set_level latin1 init (Some ''audit-logger'') (Some ''debug'')
              = (init, Err UnknownChannel)"
    using level_set_then_get [of "Some ''audit-logger''" latin1 init "''debug''"]
    by simp
  from s1 s2 s3 s4 show ?thesis
    by blast
qed

end
